theory Spec2Isabelle
  imports Main
begin

section \<open>The configuration module \<open>pages/conf.py\<close>\<close>

text \<open>
  The repository's one Python file is a module of top-level assignments. It is embedded as
  the list of its statements, in the order of the file, and evaluated the way the
  interpreter executes a module: statement by statement, each assignment binding a name in
  the module namespace to the value of its right-hand side.
\<close>

subsection \<open>Values\<close>

text \<open>
  The Python objects the module builds: \<open>str\<close>, \<open>bool\<close>, \<open>int\<close>, \<open>list\<close> and \<open>dict\<close>.
  A dict keeps its entries in insertion order, so it is an association list.
\<close>

datatype pyval =
    VStr string
  | VBool bool
  | VInt int
  | VList "pyval list"
  | VDict "(pyval \<times> pyval) list"

datatype error =
    NameError string
  | TypeError
  | Unsupported

subsection \<open>Expressions and statements\<close>

text \<open>
  An f-string is a sequence of literal pieces and replacement fields \<open>{name}\<close>.
\<close>

datatype fpart = Lit string | Field string

datatype expr =
    EStr string
  | EFStr "fpart list"
  | EName string
  | EBool bool
  | EInt int
  | EList "expr list"
  | EDict "(expr \<times> expr) list"

datatype stmt = Assign string expr

type_synonym env = "(string \<times> pyval) list"

subsection \<open>Evaluation\<close>

fun lookup_name :: "env \<Rightarrow> string \<Rightarrow> error + pyval" where
  "lookup_name e x = (case map_of e x of None \<Rightarrow> Inl (NameError x) | Some v \<Rightarrow> Inr v)"

text \<open>
  \<open>format(v)\<close> with an empty format specification, as a replacement field applies it.
  Strings format to themselves and booleans to their names; the other objects are outside
  the modelled fragment.
\<close>

fun format_val :: "pyval \<Rightarrow> error + string" where
  "format_val (VStr s) = Inr s"
| "format_val (VBool b) = Inr (if b then ''True'' else ''False'')"
| "format_val _ = Inl Unsupported"

fun eval_fparts :: "env \<Rightarrow> fpart list \<Rightarrow> error + string" where
  "eval_fparts e [] = Inr []"
| "eval_fparts e (Lit s # ps) =
     (case eval_fparts e ps of Inl err \<Rightarrow> Inl err | Inr t \<Rightarrow> Inr (s @ t))"
| "eval_fparts e (Field x # ps) =
     (case lookup_name e x of
        Inl err \<Rightarrow> Inl err
      | Inr v \<Rightarrow>
          (case format_val v of
             Inl err \<Rightarrow> Inl err
           | Inr s \<Rightarrow> (case eval_fparts e ps of Inl err \<Rightarrow> Inl err | Inr t \<Rightarrow> Inr (s @ t))))"

text \<open>The first error of a left-to-right evaluation, or all the results.\<close>

fun sequence :: "(error + 'a) list \<Rightarrow> error + 'a list" where
  "sequence [] = Inr []"
| "sequence (Inl err # _) = Inl err"
| "sequence (Inr v # rs) = (case sequence rs of Inl err \<Rightarrow> Inl err | Inr vs \<Rightarrow> Inr (v # vs))"

text \<open>
  Dict keys are compared by \<open>==\<close>, under which \<open>True\<close> is \<open>1\<close> and \<open>False\<close> is \<open>0\<close>;
  lists and dicts are unhashable and raise \<open>TypeError\<close> as keys.
\<close>

fun hashable :: "pyval \<Rightarrow> bool" where
  "hashable (VList _) = False"
| "hashable (VDict _) = False"
| "hashable _ = True"

fun key_norm :: "pyval \<Rightarrow> pyval" where
  "key_norm (VBool b) = VInt (if b then 1 else 0)"
| "key_norm v = v"

fun dict_set :: "(pyval \<times> pyval) list \<Rightarrow> pyval \<Rightarrow> pyval \<Rightarrow> (pyval \<times> pyval) list" where
  "dict_set [] k v = [(k, v)]"
| "dict_set ((k', v') # d) k v =
     (if key_norm k' = key_norm k then (k', v) # d else (k', v') # dict_set d k v)"

fun build_dict :: "(pyval \<times> pyval) list \<Rightarrow> (pyval \<times> pyval) list \<Rightarrow> error + pyval" where
  "build_dict d [] = Inr (VDict d)"
| "build_dict d ((k, v) # kvs) =
     (if hashable k then build_dict (dict_set d k v) kvs else Inl TypeError)"

fun sequence_pairs :: "((error + 'a) \<times> (error + 'a)) list \<Rightarrow> error + ('a \<times> 'a) list" where
  "sequence_pairs [] = Inr []"
| "sequence_pairs ((Inl err, _) # _) = Inl err"
| "sequence_pairs ((Inr k, Inl err) # _) = Inl err"
| "sequence_pairs ((Inr k, Inr v) # rs) =
     (case sequence_pairs rs of Inl err \<Rightarrow> Inl err | Inr kvs \<Rightarrow> Inr ((k, v) # kvs))"

text \<open>
  A dict display evaluates key, value, key, value, ... from left to right and inserts the
  pairs in that order.
\<close>

fun eval_expr :: "env \<Rightarrow> expr \<Rightarrow> error + pyval" where
  "eval_expr e (EStr s) = Inr (VStr s)"
| "eval_expr e (EFStr ps) = (case eval_fparts e ps of Inl err \<Rightarrow> Inl err | Inr s \<Rightarrow> Inr (VStr s))"
| "eval_expr e (EName x) = lookup_name e x"
| "eval_expr e (EBool b) = Inr (VBool b)"
| "eval_expr e (EInt i) = Inr (VInt i)"
| "eval_expr e (EList xs) =
     (case sequence (map (eval_expr e) xs) of Inl err \<Rightarrow> Inl err | Inr vs \<Rightarrow> Inr (VList vs))"
| "eval_expr e (EDict kvs) =
     (case sequence_pairs (map (\<lambda>kv. (eval_expr e (fst kv), eval_expr e (snd kv))) kvs) of
        Inl err \<Rightarrow> Inl err
      | Inr vs \<Rightarrow> build_dict [] vs)"

text \<open>Binding a name: a rebinding keeps the name's place in the namespace.\<close>

fun env_set :: "env \<Rightarrow> string \<Rightarrow> pyval \<Rightarrow> env" where
  "env_set [] x v = [(x, v)]"
| "env_set ((y, w) # e) x v = (if y = x then (y, v) # e else (y, w) # env_set e x v)"

fun exec_stmt :: "env \<Rightarrow> stmt \<Rightarrow> error + env" where
  "exec_stmt e (Assign x rhs) =
     (case eval_expr e rhs of Inl err \<Rightarrow> Inl err | Inr v \<Rightarrow> Inr (env_set e x v))"

fun exec_module :: "env \<Rightarrow> stmt list \<Rightarrow> error + env" where
  "exec_module e [] = Inr e"
| "exec_module e (s # ss) =
     (case exec_stmt e s of Inl err \<Rightarrow> Inl err | Inr e' \<Rightarrow> exec_module e' ss)"

subsection \<open>The module\<close>

text \<open>
  The text of the triple-quoted string bound to \<open>_extra_navbar\<close>: it starts with the line
  break after the opening quotes and ends with the one before the closing quotes.
\<close>

definition extra_navbar_text :: string where
  \<open>extra_navbar_text = concat
    [''\<newline>'',
     ''<div class="sd-fs-4">\<newline>'',
     ''<!--\<newline>'',
     ''<a href="https://fortran-lang.discourse.group/" target="_blank">\<newline>'',
     ''    <i class="fab fa-discourse"></i>\<newline>'',
     ''</a>\<newline>'',
     ''<a href="https://twitter.com/fortranlang" target="_blank">\<newline>'',
     ''    <i class="fab fa-twitter"></i>\<newline>'',
     ''</a>\<newline>'',
     ''<a href="https://github.com/fortran-lang" target="_blank">\<newline>'',
     ''    <i class="fab fa-github"></i>\<newline>'',
     ''</a>\<newline>'',
     ''-->\<newline>'',
     ''</div>\<newline>'']\<close>

text \<open>The statements of \<open>conf.py\<close>, in the order of the file.\<close>

definition conf_py :: "stmt list" where
  "conf_py =
    [Assign ''project'' (EStr ''Fortran OOP Seminar Series''),
     Assign ''author'' (EStr ''Sebastian Ehlert''),
     Assign ''copyright'' (EFStr [Lit ''2022 '', Field ''author'']),
     Assign ''extensions'' (EList
       [EStr ''myst_parser'',
        EStr ''sphinx_design'',
        EStr ''sphinx_copybutton'',
        EStr ''sphinx.ext.intersphinx'',
        EStr ''sphinx_comments'']),
     Assign ''myst_enable_extensions'' (EList
       [EStr ''colon_fence'',
        EStr ''deflist'',
        EStr ''substitution'',
        EStr ''html_image'']),
     Assign ''html_theme'' (EStr ''sphinx_book_theme''),
     Assign ''html_title'' (EStr ''Fortran OOP Seminar Series''),
     Assign ''html_logo'' (EStr ''_static/foopss-logo.svg''),
     Assign ''html_favicon'' (EStr ''_static/fortran-logo.svg''),
     Assign ''_extra_navbar'' (EStr extra_navbar_text),
     Assign ''html_theme_options'' (EDict
       [(EStr ''repository_url'', EStr ''https://github.com/awvwgk/foopss''),
        (EStr ''repository_branch'', EStr ''main''),
        (EStr ''use_repository_button'', EBool True),
        (EStr ''use_edit_page_button'', EBool True),
        (EStr ''use_download_button'', EBool False),
        (EStr ''path_to_docs'', EStr ''pages''),
        (EStr ''show_navbar_depth'', EInt 3),
        (EStr ''logo_only'', EBool True),
        (EStr ''extra_navbar'', EName ''_extra_navbar'')]),
     Assign ''html_sidebars'' (EDict
       [(EStr ''**'', EList [EStr ''sidebar-logo.html'', EStr ''search-field.html''])]),
     Assign ''html_css_files'' (EList [EStr ''css/custom.css'']),
     Assign ''html_static_path'' (EList [EStr ''_static'']),
     Assign ''templates_path'' (EList [EStr ''_templates'']),
     Assign ''master_doc'' (EStr ''index''),
     Assign ''comments_config'' (EDict [])]"

text \<open>The namespace the module leaves behind, and the value a name has in it.\<close>

definition conf_env :: "error + env" where
  "conf_env = exec_module [] conf_py"

definition conf_value :: "string \<Rightarrow> pyval option" where
  "conf_value x = (case conf_env of Inl _ \<Rightarrow> None | Inr e \<Rightarrow> map_of e x)"

section \<open>The text of the file\<close>

text \<open>
  The lines of \<open>pages/conf.py\<close> as they stand in the repository, without their line
  breaks. The last line is not followed by a line break.
\<close>

definition conf_py_lines :: "string list" where
  \<open>conf_py_lines =
    [''project = "Fortran OOP Seminar Series"'',
     ''author = "Sebastian Ehlert"'',
     ''copyright = f"2022 {author}"'',
     '''',
     ''extensions = ['',
     ''    "myst_parser",'',
     ''    "sphinx_design",'',
     ''    "sphinx_copybutton",'',
     ''    "sphinx.ext.intersphinx",'',
     ''    "sphinx_comments",'',
     '']'',
     ''myst_enable_extensions = ['',
     ''    "colon_fence",'',
     ''    "deflist",'',
     ''    "substitution",'',
     ''    "html_image",'',
     '']'',
     '''',
     ''html_theme = "sphinx_book_theme"'',
     ''html_title = "Fortran OOP Seminar Series"'',
     ''html_logo = "_static/foopss-logo.svg"'',
     ''html_favicon = "_static/fortran-logo.svg"'',
     '''',
     ''_extra_navbar = """'',
     ''<div class="sd-fs-4">'',
     ''<!--'',
     ''<a href="https://fortran-lang.discourse.group/" target="_blank">'',
     ''    <i class="fab fa-discourse"></i>'',
     ''</a>'',
     ''<a href="https://twitter.com/fortranlang" target="_blank">'',
     ''    <i class="fab fa-twitter"></i>'',
     ''</a>'',
     ''<a href="https://github.com/fortran-lang" target="_blank">'',
     ''    <i class="fab fa-github"></i>'',
     ''</a>'',
     ''-->'',
     ''</div>'',
     ''"""'',
     '''',
     ''html_theme_options = {'',
     ''    "repository_url": "https://github.com/awvwgk/foopss",'',
     ''    "repository_branch": "main",'',
     ''    "use_repository_button": True,'',
     ''    "use_edit_page_button": True,'',
     ''    "use_download_button": False,'',
     ''    "path_to_docs": "pages",'',
     ''    "show_navbar_depth": 3,'',
     ''    "logo_only": True,'',
     ''    "extra_navbar": _extra_navbar,'',
     ''    #"single_page": True,'',
     ''}'',
     '''',
     ''html_sidebars = {'',
     ''    "**": ["sidebar-logo.html", "search-field.html"],'',
     ''}'',
     '''',
     ''html_css_files = ['',
     ''    "css/custom.css",'',
     '']'',
     ''html_static_path = ["_static"]'',
     ''templates_path = ["_templates"]'',
     '''',
     ''master_doc = "index"'',
     '''',
     ''comments_config = {}'']\<close>

subsection \<open>Reading the text: tokens\<close>

text \<open>
  The fragment of Python's lexical structure the file is written in: names, decimal
  integers, string literals in double quotes (plain, triple-quoted, and f-strings) without
  escape sequences, brackets, braces, \<open>=\<close>, \<open>,\<close>, \<open>:\<close> and comments. Whatever is outside
  the fragment is rejected with \<open>None\<close>.
\<close>

datatype token =
    TName string
  | TStr string
  | TFStr string
  | TNum nat
  | TEq
  | TComma
  | TColon
  | TLBrack
  | TRBrack
  | TLBrace
  | TRBrace
  | TNewline

definition is_name_start :: "char \<Rightarrow> bool" where
  "is_name_start c \<longleftrightarrow> c \<in> set ''abcdefghijklmnopqrstuvwxyzABCDEFGHIJKLMNOPQRSTUVWXYZ_''"

definition is_digit :: "char \<Rightarrow> bool" where
  "is_digit c \<longleftrightarrow> c \<in> set ''0123456789''"

definition is_name_char :: "char \<Rightarrow> bool" where
  "is_name_char c \<longleftrightarrow> is_name_start c \<or> is_digit c"

definition dquote :: char where
  "dquote = CHR 0x22"

definition triple_quote :: string where
  "triple_quote = [dquote, dquote, dquote]"

text \<open>
  \<open>split_on d s\<close> cuts \<open>s\<close> at the first occurrence of the delimiter \<open>d\<close>: the text before
  it and the text after it.
\<close>

fun split_on :: "string \<Rightarrow> string \<Rightarrow> (string \<times> string) option" where
  "split_on d [] = (if d = [] then Some ([], []) else None)"
| "split_on d (c # cs) =
     (if take (length d) (c # cs) = d then Some ([], drop (length d) (c # cs))
      else (case split_on d cs of None \<Rightarrow> None | Some (a, b) \<Rightarrow> Some (c # a, b)))"

lemma split_on_length: "split_on d s = Some (a, b) \<Longrightarrow> length b \<le> length s"
  by (induction s arbitrary: a) (auto split: if_splits option.splits)

text \<open>
  The tokenizer reads the file line by line and carries two things from one line to the
  next: the number of brackets and braces still open, and the text so far of a
  triple-quoted string that has not been closed yet (with the flag of an f-string).
\<close>

type_synonym lstate = "nat \<times> (bool \<times> string) option"

text \<open>
  What follows the opening quote of a string literal: a body closed on this line and the
  rest of the line, or the start of a triple-quoted string that runs on.
\<close>

datatype scanned = Closed string string | Running string

definition lex_string :: "string \<Rightarrow> scanned option" where
  "lex_string cs =
     (if take 2 cs = [dquote, dquote] then
        (case split_on triple_quote (drop 2 cs) of
           None \<Rightarrow> Some (Running (drop 2 cs @ ''\<newline>''))
         | Some (body, rest) \<Rightarrow> Some (Closed body rest))
      else
        (case split_on [dquote] cs of
           None \<Rightarrow> None
         | Some (body, rest) \<Rightarrow> Some (Closed body rest)))"

lemma lex_string_length: "lex_string cs = Some (Closed body rest) \<Longrightarrow> length rest \<le> length cs"
  unfolding lex_string_def
  by (auto split: if_splits option.splits dest!: split_on_length)

text \<open>A body with a backslash would hold an escape sequence: outside the fragment.\<close>

definition str_token :: "bool \<Rightarrow> string \<Rightarrow> token option" where
  "str_token f body =
     (if CHR 0x5C \<in> set body then None else Some (if f then TFStr body else TStr body))"

definition digit_val :: "char \<Rightarrow> nat" where
  "digit_val c = length (takeWhile (\<lambda>x. x \<noteq> c) ''0123456789'')"

definition lex_number :: "string \<Rightarrow> nat option" where
  "lex_number ds =
     (if length ds > 1 \<and> hd ds = CHR ''0'' then None
      else Some (foldl (\<lambda>a c. 10 * a + digit_val c) 0 ds))"

definition emit :: "token \<Rightarrow> (token list \<times> lstate) option \<Rightarrow> (token list \<times> lstate) option" where
  "emit t r = (case r of None \<Rightarrow> None | Some (ts, st) \<Rightarrow> Some (t # ts, st))"

text \<open>The tokens of (the rest of) a line, with \<open>d\<close> brackets and braces open.\<close>

function tokenize_line :: "nat \<Rightarrow> string \<Rightarrow> (token list \<times> lstate) option" where
  "tokenize_line d [] = Some ([], (d, None))"
| "tokenize_line d (c # cs) =
     (if c = CHR '' '' then tokenize_line d cs
      else if c = CHR ''#'' then Some ([], (d, None))
      else if c = CHR ''='' then emit TEq (tokenize_line d cs)
      else if c = CHR '','' then emit TComma (tokenize_line d cs)
      else if c = CHR '':'' then emit TColon (tokenize_line d cs)
      else if c = CHR ''['' then emit TLBrack (tokenize_line (Suc d) cs)
      else if c = CHR ''{'' then emit TLBrace (tokenize_line (Suc d) cs)
      else if c = CHR '']'' then
        (if d = 0 then None else emit TRBrack (tokenize_line (d - 1) cs))
      else if c = CHR ''}'' then
        (if d = 0 then None else emit TRBrace (tokenize_line (d - 1) cs))
      else if c = dquote then
        (case lex_string cs of
           None \<Rightarrow> None
         | Some (Running txt) \<Rightarrow> Some ([], (d, Some (False, txt)))
         | Some (Closed body rest) \<Rightarrow>
             (case str_token False body of
                None \<Rightarrow> None
              | Some t \<Rightarrow> emit t (tokenize_line d rest)))
      else if c = CHR ''f'' \<and> take 1 cs = [dquote] then
        (case lex_string (drop 1 cs) of
           None \<Rightarrow> None
         | Some (Running txt) \<Rightarrow> Some ([], (d, Some (True, txt)))
         | Some (Closed body rest) \<Rightarrow>
             (case str_token True body of
                None \<Rightarrow> None
              | Some t \<Rightarrow> emit t (tokenize_line d rest)))
      else if is_name_start c then
        emit (TName (c # takeWhile is_name_char cs))
          (tokenize_line d (dropWhile is_name_char cs))
      else if is_digit c then
        (if take 1 (dropWhile is_digit cs) \<noteq> [] \<and> is_name_start (hd (dropWhile is_digit cs))
         then None
         else
           (case lex_number (c # takeWhile is_digit cs) of
              None \<Rightarrow> None
            | Some k \<Rightarrow> emit (TNum k) (tokenize_line d (dropWhile is_digit cs))))
      else None)"
  by pat_completeness auto
termination
proof (relation "measure (\<lambda>(d, s). length s)")
  fix d :: nat and c :: char and cs body rest :: string and x :: scanned and t :: token
  assume "lex_string cs = Some x" and "x = Closed body rest"
  then show "((d, rest), d, c # cs) \<in> measure (\<lambda>(d, s). length s)"
    using lex_string_length [of cs body rest] by simp
next
  fix d :: nat and c :: char and cs body rest :: string and x :: scanned and t :: token
  assume "lex_string (drop 1 cs) = Some x" and "x = Closed body rest"
  then show "((d, rest), d, c # cs) \<in> measure (\<lambda>(d, s). length s)"
    using lex_string_length [of "drop 1 cs" body rest] by simp
qed (auto simp: less_Suc_eq_le length_dropWhile_le)

text \<open>
  A logical line of the module starts in the first column: a line that is indented and is
  neither blank nor a comment is an \<open>IndentationError\<close>.
\<close>

definition indented :: "string \<Rightarrow> bool" where
  "indented l =
     (case dropWhile (\<lambda>x. x = CHR '' '') l of
        [] \<Rightarrow> False
      | x # _ \<Rightarrow> take 1 l = '' '' \<and> x \<noteq> CHR ''#'')"

text \<open>
  A line break ends a logical line unless a bracket, a brace or a triple-quoted string is
  still open.
\<close>

definition end_line :: "(token list \<times> lstate) option \<Rightarrow> (token list \<times> lstate) option" where
  "end_line r =
     (case r of
        None \<Rightarrow> None
      | Some (ts, st) \<Rightarrow> Some (if st = (0, None) then ts @ [TNewline] else ts, st))"

fun lex_line :: "lstate \<Rightarrow> string \<Rightarrow> (token list \<times> lstate) option" where
  "lex_line (d, Some (f, txt)) l =
     (case split_on triple_quote l of
        None \<Rightarrow> Some ([], (d, Some (f, txt @ l @ ''\<newline>'')))
      | Some (a, rest) \<Rightarrow>
          (case str_token f (txt @ a) of
             None \<Rightarrow> None
           | Some t \<Rightarrow> emit t (end_line (tokenize_line d rest))))"
| "lex_line (d, None) l =
     (if d = 0 \<and> indented l then None else end_line (tokenize_line d l))"

text \<open>The tokens of a file; at its end nothing may be left open.\<close>

fun lex_lines :: "lstate \<Rightarrow> string list \<Rightarrow> token list option" where
  "lex_lines st [] = (if st = (0, None) then Some [] else None)"
| "lex_lines st (l # ls) =
     (case lex_line st l of
        None \<Rightarrow> None
      | Some (ts, st') \<Rightarrow> (case lex_lines st' ls of None \<Rightarrow> None | Some ts' \<Rightarrow> Some (ts @ ts')))"

subsection \<open>Reading the text: statements\<close>

definition py_keywords :: "string list" where
  "py_keywords =
    [''False'', ''None'', ''True'', ''and'', ''as'', ''assert'', ''async'', ''await'',
     ''break'', ''class'', ''continue'', ''def'', ''del'', ''elif'', ''else'', ''except'',
     ''finally'', ''for'', ''from'', ''global'', ''if'', ''import'', ''in'', ''is'',
     ''lambda'', ''nonlocal'', ''not'', ''or'', ''pass'', ''raise'', ''return'', ''try'',
     ''while'', ''with'', ''yield'']"

definition is_identifier :: "string \<Rightarrow> bool" where
  "is_identifier x \<longleftrightarrow>
     x \<noteq> [] \<and> is_name_start (hd x) \<and> list_all is_name_char x \<and> x \<notin> set py_keywords"

text \<open>
  The pieces of an f-string body: literal text and replacement fields holding one name.
  Doubled braces, conversions and format specifications are outside the fragment.
\<close>

function parse_fstring :: "string \<Rightarrow> fpart list option" where
  "parse_fstring [] = Some []"
| "parse_fstring (c # cs) =
     (if c = CHR ''{'' then
        (case split_on ''}'' cs of
           None \<Rightarrow> None
         | Some (x, rest) \<Rightarrow>
             if is_identifier x then map_option ((#) (Field x)) (parse_fstring rest) else None)
      else if c = CHR ''}'' then None
      else
        map_option ((#) (Lit (c # takeWhile (\<lambda>x. x \<notin> set ''{}'') cs)))
          (parse_fstring (dropWhile (\<lambda>x. x \<notin> set ''{}'') cs)))"
  by pat_completeness auto
termination
proof (relation "measure length")
  fix c :: char and cs x rest :: string and y :: "string \<times> string"
  assume "split_on ''}'' cs = Some y" and "(x, rest) = y"
  then show "(rest, c # cs) \<in> measure length"
    using split_on_length [of "''}''" cs x rest] by simp
qed (auto simp: less_Suc_eq_le length_dropWhile_le)

text \<open>
  Expressions: literals, names, list displays and dict displays, with an optional trailing
  comma. The first argument bounds the depth of the descent; the number of tokens is
  always enough.
\<close>

fun parse_expr :: "nat \<Rightarrow> token list \<Rightarrow> (expr \<times> token list) option"
  and parse_items :: "nat \<Rightarrow> token list \<Rightarrow> (expr list \<times> token list) option"
  and parse_pairs :: "nat \<Rightarrow> token list \<Rightarrow> ((expr \<times> expr) list \<times> token list) option"
where
  "parse_expr 0 ts = None"
| "parse_expr (Suc n) [] = None"
| "parse_expr (Suc n) (TStr s # ts) = Some (EStr s, ts)"
| "parse_expr (Suc n) (TFStr s # ts) =
     (case parse_fstring s of None \<Rightarrow> None | Some ps \<Rightarrow> Some (EFStr ps, ts))"
| "parse_expr (Suc n) (TNum k # ts) = Some (EInt (int k), ts)"
| "parse_expr (Suc n) (TName x # ts) =
     (if x = ''True'' then Some (EBool True, ts)
      else if x = ''False'' then Some (EBool False, ts)
      else if is_identifier x then Some (EName x, ts)
      else None)"
| "parse_expr (Suc n) (TLBrack # ts) =
     (case parse_items n ts of None \<Rightarrow> None | Some (xs, r) \<Rightarrow> Some (EList xs, r))"
| "parse_expr (Suc n) (TLBrace # ts) =
     (case parse_pairs n ts of None \<Rightarrow> None | Some (kvs, r) \<Rightarrow> Some (EDict kvs, r))"
| "parse_expr (Suc n) (_ # ts) = None"
| "parse_items 0 ts = None"
| "parse_items (Suc n) (TRBrack # ts) = Some ([], ts)"
| "parse_items (Suc n) ts =
     (case parse_expr n ts of
        None \<Rightarrow> None
      | Some (x, TComma # r) \<Rightarrow>
          (case parse_items n r of None \<Rightarrow> None | Some (xs, r') \<Rightarrow> Some (x # xs, r'))
      | Some (x, TRBrack # r) \<Rightarrow> Some ([x], r)
      | Some _ \<Rightarrow> None)"
| "parse_pairs 0 ts = None"
| "parse_pairs (Suc n) (TRBrace # ts) = Some ([], ts)"
| "parse_pairs (Suc n) ts =
     (case parse_expr n ts of
        Some (k, TColon # r) \<Rightarrow>
          (case parse_expr n r of
             None \<Rightarrow> None
           | Some (v, TComma # r') \<Rightarrow>
               (case parse_pairs n r' of
                  None \<Rightarrow> None
                | Some (kvs, r'') \<Rightarrow> Some ((k, v) # kvs, r''))
           | Some (v, TRBrace # r') \<Rightarrow> Some ([(k, v)], r')
           | Some _ \<Rightarrow> None)
      | _ \<Rightarrow> None)"

text \<open>
  A module of the fragment is a sequence of logical lines, each one assignment
  \<open>name = expression\<close>. Any other statement makes the reading fail.
\<close>

fun parse_stmts :: "nat \<Rightarrow> token list \<Rightarrow> stmt list option" where
  "parse_stmts n [] = Some []"
| "parse_stmts n (TNewline # ts) = (case n of 0 \<Rightarrow> None | Suc m \<Rightarrow> parse_stmts m ts)"
| "parse_stmts n (TName x # TEq # ts) =
     (case n of
        0 \<Rightarrow> None
      | Suc m \<Rightarrow>
          if is_identifier x then
            (case parse_expr (length ts) ts of
               None \<Rightarrow> None
             | Some (rhs, []) \<Rightarrow> Some [Assign x rhs]
             | Some (rhs, TNewline # r) \<Rightarrow>
                 (case parse_stmts m r of None \<Rightarrow> None | Some ss \<Rightarrow> Some (Assign x rhs # ss))
             | Some _ \<Rightarrow> None)
          else None)"
| "parse_stmts n _ = None"

definition parse_module :: "string list \<Rightarrow> stmt list option" where
  "parse_module ls =
     (case lex_lines (0, None) ls of None \<Rightarrow> None | Some ts \<Rightarrow> parse_stmts (length ts) ts)"

section \<open>Properties\<close>

subsection \<open>Helpers for the statements\<close>

text \<open>A value that is a \<open>str\<close>, a \<open>bool\<close> or an \<open>int\<close>.\<close>

fun is_scalar :: "pyval \<Rightarrow> bool" where
  "is_scalar (VStr _) = True"
| "is_scalar (VBool _) = True"
| "is_scalar (VInt _) = True"
| "is_scalar _ = False"

text \<open>A value that is a \<open>str\<close>, a \<open>list\<close> or a \<open>dict\<close>.\<close>

fun is_str_list_dict :: "pyval \<Rightarrow> bool" where
  "is_str_list_dict (VStr _) = True"
| "is_str_list_dict (VList _) = True"
| "is_str_list_dict (VDict _) = True"
| "is_str_list_dict _ = False"

text \<open>The name a statement binds.\<close>

fun target :: "stmt \<Rightarrow> string" where
  "target (Assign x _) = x"

text \<open>
  For the HTML in \<open>_extra_navbar\<close>: the number of places where a piece of markup occurs in
  a text, and the cut of a text at its first comment into what stands before \<open><!--\<close>, the
  comment's body, and what stands after the next \<open>-->\<close>.
\<close>

fun count_sub :: "string \<Rightarrow> string \<Rightarrow> nat" where
  "count_sub d [] = 0"
| "count_sub d (c # cs) = (if take (length d) (c # cs) = d then 1 else 0) + count_sub d cs"

definition comment_split :: "string \<Rightarrow> (string \<times> string \<times> string) option" where
  "comment_split s =
     (case split_on ''<!--'' s of
        None \<Rightarrow> None
      | Some (pre, r) \<Rightarrow>
          (case split_on ''-->'' r of
             None \<Rightarrow> None
           | Some (body, post) \<Rightarrow> Some (pre, body, post)))"

lemma conf_env_value:
  "conf_env = Inr
    [(''project'', VStr ''Fortran OOP Seminar Series''),
     (''author'', VStr ''Sebastian Ehlert''),
     (''copyright'', VStr ''2022 Sebastian Ehlert''),
     (''extensions'', VList
       [VStr ''myst_parser'', VStr ''sphinx_design'', VStr ''sphinx_copybutton'',
        VStr ''sphinx.ext.intersphinx'', VStr ''sphinx_comments'']),
     (''myst_enable_extensions'', VList
       [VStr ''colon_fence'', VStr ''deflist'', VStr ''substitution'', VStr ''html_image'']),
     (''html_theme'', VStr ''sphinx_book_theme''),
     (''html_title'', VStr ''Fortran OOP Seminar Series''),
     (''html_logo'', VStr ''_static/foopss-logo.svg''),
     (''html_favicon'', VStr ''_static/fortran-logo.svg''),
     (''_extra_navbar'', VStr extra_navbar_text),
     (''html_theme_options'', VDict
       [(VStr ''repository_url'', VStr ''https://github.com/awvwgk/foopss''),
        (VStr ''repository_branch'', VStr ''main''),
        (VStr ''use_repository_button'', VBool True),
        (VStr ''use_edit_page_button'', VBool True),
        (VStr ''use_download_button'', VBool False),
        (VStr ''path_to_docs'', VStr ''pages''),
        (VStr ''show_navbar_depth'', VInt 3),
        (VStr ''logo_only'', VBool True),
        (VStr ''extra_navbar'', VStr extra_navbar_text)]),
     (''html_sidebars'', VDict
       [(VStr ''**'', VList [VStr ''sidebar-logo.html'', VStr ''search-field.html''])]),
     (''html_css_files'', VList [VStr ''css/custom.css'']),
     (''html_static_path'', VList [VStr ''_static'']),
     (''templates_path'', VList [VStr ''_templates'']),
     (''master_doc'', VStr ''index''),
     (''comments_config'', VDict [])]"
  unfolding conf_env_def conf_py_def by simp

subsection \<open>Facts about evaluation\<close>

lemma map_of_env_set: "map_of (env_set e x v) y = (if y = x then Some v else map_of e y)"
  by (induction e x v rule: env_set.induct) auto

lemma exec_stmt_other:
  assumes "exec_stmt e s = Inr e'" and "target s \<noteq> y"
  shows "map_of e' y = map_of e y"
proof (cases s)
  case (Assign x rhs)
  with assms obtain v where "e' = env_set e x v" and "x \<noteq> y"
    by (auto split: sum.splits)
  then show ?thesis by (simp add: map_of_env_set)
qed

lemma exec_module_other:
  "exec_module e ss = Inr e' \<Longrightarrow> y \<notin> target ` set ss \<Longrightarrow> map_of e' y = map_of e y"
proof (induction ss arbitrary: e)
  case Nil
  then show ?case by simp
next
  case (Cons s ss)
  from Cons.prems(1) obtain e1 where s: "exec_stmt e s = Inr e1" and r: "exec_module e1 ss = Inr e'"
    by (auto split: sum.splits)
  from Cons.prems(2) have "target s \<noteq> y" and "y \<notin> target ` set ss" by auto
  with s r Cons.IH [of e1] exec_stmt_other [of e s e1 y] show ?case by simp
qed

lemma exec_module_append:
  "exec_module e (xs @ ys) =
     (case exec_module e xs of Inl err \<Rightarrow> Inl err | Inr e' \<Rightarrow> exec_module e' ys)"
  by (induction xs arbitrary: e) (auto split: sum.splits)

lemma exec_module_take:
  assumes "exec_module e ss = Inr e'"
  shows "\<exists>e1. exec_module e (take n ss) = Inr e1"
proof -
  have "exec_module e (take n ss @ drop n ss) = Inr e'"
    using assms by simp
  then show ?thesis
    unfolding exec_module_append by (cases "exec_module e (take n ss)") auto
qed

text \<open>The module read from the text of the file is the module evaluated here.\<close>

lemma conf_py_parsed: "parse_module conf_py_lines = Some conf_py"
  by code_simp

text \<open>Statements other than assignments are not read as a module of the fragment.\<close>

lemma parse_rejects_import: "parse_module [''import os''] = None"
  by code_simp

lemma parse_rejects_def: "parse_module [''def f(): pass''] = None"
  by code_simp

lemma parse_rejects_class: "parse_module [''class A: pass''] = None"
  by code_simp

lemma parse_rejects_if: "parse_module [''x = 1'', ''if x: y = 2''] = None"
  by code_simp

lemma parse_rejects_expression: "parse_module [''x = 1'', ''x''] = None"
  by code_simp

subsection \<open>The plugin lists\<close>

text \<open>
  C1: \<open>extensions\<close> is the ordered list of exactly five strings \<open>myst_parser\<close>,
  \<open>sphinx_design\<close>, \<open>sphinx_copybutton\<close>, \<open>sphinx.ext.intersphinx\<close>, \<open>sphinx_comments\<close>.
\<close>

theorem extensions_value:
  "conf_value ''extensions'' = Some (VList
     [VStr ''myst_parser'', VStr ''sphinx_design'', VStr ''sphinx_copybutton'',
      VStr ''sphinx.ext.intersphinx'', VStr ''sphinx_comments''])"
  unfolding conf_value_def by (simp add: conf_env_value)

text \<open>
  C2: \<open>myst_enable_extensions\<close> is the list of exactly four strings \<open>colon_fence\<close>,
  \<open>deflist\<close>, \<open>substitution\<close>, \<open>html_image\<close>, in that order, and nothing else.
\<close>

theorem myst_enable_extensions_value:
  "conf_value ''myst_enable_extensions'' = Some (VList
     [VStr ''colon_fence'', VStr ''deflist'', VStr ''substitution'', VStr ''html_image''])"
  unfolding conf_value_def by (simp add: conf_env_value)

subsection \<open>The mappings\<close>

text \<open>
  C3: \<open>html_sidebars\<close> is a dict whose only key is the string \<open>**\<close>, mapped to the list of
  the two strings \<open>sidebar-logo.html\<close> and \<open>search-field.html\<close>, in that order.
\<close>

theorem html_sidebars_value:
  "conf_value ''html_sidebars'' = Some (VDict
     [(VStr ''**'', VList [VStr ''sidebar-logo.html'', VStr ''search-field.html''])])"
  unfolding conf_value_def by (simp add: conf_env_value)

text \<open>
  C4: \<open>html_theme_options\<close> is a dict all of whose values are strings, booleans or
  integers, and among its keys are \<open>repository_url\<close>, \<open>repository_branch\<close>,
  \<open>use_repository_button\<close>, \<open>show_navbar_depth\<close>, \<open>use_edit_page_button\<close>,
  \<open>use_download_button\<close> and \<open>extra_navbar\<close>.
\<close>

theorem html_theme_options_scalar:
  "\<exists>d. conf_value ''html_theme_options'' = Some (VDict d)
     \<and> list_all is_scalar (map snd d)
     \<and> list_all (\<lambda>k. List.member (map fst d) (VStr k))
          [''repository_url'', ''repository_branch'', ''use_repository_button'',
           ''show_navbar_depth'', ''use_edit_page_button'', ''use_download_button'',
           ''extra_navbar'']"
  unfolding conf_value_def by (simp add: conf_env_value)

text \<open>C5: \<open>comments_config\<close> is the empty dict.\<close>

theorem comments_config_empty:
  "conf_value ''comments_config'' = Some (VDict [])"
  unfolding conf_value_def by (simp add: conf_env_value)

subsection \<open>Project metadata\<close>

text \<open>
  C8: \<open>copyright\<close> is computed from \<open>author\<close>: the third statement binds it to
  \<open>2022\<close>, a space, and whatever string \<open>author\<close> holds when the statement runs; in the
  module that is \<open>2022 Sebastian Ehlert\<close>.
\<close>

theorem copyright_from_author:
  "conf_value ''copyright'' = Some (VStr ''2022 Sebastian Ehlert'')
   \<and> (\<exists>a. conf_value ''author'' = Some (VStr a)
          \<and> conf_value ''copyright'' = Some (VStr (''2022 '' @ a)))
   \<and> (\<forall>e a. map_of e ''author'' = Some (VStr a) \<longrightarrow>
          exec_stmt e (conf_py ! 2) = Inr (env_set e ''copyright'' (VStr (''2022 '' @ a))))"
proof -
  have "conf_py ! 2 = Assign ''copyright'' (EFStr [Lit ''2022 '', Field ''author''])"
    unfolding conf_py_def by simp
  then have "\<forall>e a. map_of e ''author'' = Some (VStr a) \<longrightarrow>
      exec_stmt e (conf_py ! 2) = Inr (env_set e ''copyright'' (VStr (''2022 '' @ a)))"
    by simp
  moreover have "conf_value ''copyright'' = Some (VStr ''2022 Sebastian Ehlert'')"
    and "conf_value ''author'' = Some (VStr ''Sebastian Ehlert'')"
    unfolding conf_value_def by (simp_all add: conf_env_value)
  ultimately show ?thesis by simp
qed

theorem copyright_from_author_witness:
  "map_of [(''author'', VStr ''A. N. Other'')] ''author'' = Some (VStr ''A. N. Other'')
   \<and> exec_stmt [(''author'', VStr ''A. N. Other'')] (conf_py ! 2)
       = Inr [(''author'', VStr ''A. N. Other''), (''copyright'', VStr ''2022 A. N. Other'')]"
proof -
  have h: "map_of [(''author'', VStr ''A. N. Other'')] ''author'' = Some (VStr ''A. N. Other'')"
    by simp
  from copyright_from_author
  have "map_of [(''author'', VStr ''A. N. Other'')] ''author'' = Some (VStr ''A. N. Other'') \<longrightarrow>
      exec_stmt [(''author'', VStr ''A. N. Other'')] (conf_py ! 2)
        = Inr (env_set [(''author'', VStr ''A. N. Other'')] ''copyright''
                (VStr (''2022 '' @ ''A. N. Other'')))"
    by blast
  with h show ?thesis by simp
qed

text \<open>
  C9: \<open>html_title\<close> and \<open>project\<close> have the same value, the string
  \<open>Fortran OOP Seminar Series\<close>.
\<close>

theorem html_title_is_project:
  "conf_value ''html_title'' = conf_value ''project''
   \<and> conf_value ''project'' = Some (VStr ''Fortran OOP Seminar Series'')"
  unfolding conf_value_def by (simp add: conf_env_value)

text \<open>
  C6: each of \<open>project\<close>, \<open>author\<close> and \<open>copyright\<close> is bound by exactly one statement
  of the module, to a string, and keeps that value from then on: after any number \<open>n\<close> of
  statements the name is unbound if its statement has not run yet, and holds its one
  value otherwise.
\<close>

theorem metadata_assigned_once:
  "list_all (\<lambda>x. length (filter (\<lambda>s. target s = x) conf_py) = 1)
     [''project'', ''author'', ''copyright'']
   \<and> (\<forall>n. \<exists>e. exec_module [] (take n conf_py) = Inr e
          \<and> map_of e ''project'' =
              (if 1 \<le> n then Some (VStr ''Fortran OOP Seminar Series'') else None)
          \<and> map_of e ''author'' =
              (if 2 \<le> n then Some (VStr ''Sebastian Ehlert'') else None)
          \<and> map_of e ''copyright'' =
              (if 3 \<le> n then Some (VStr ''2022 Sebastian Ehlert'') else None))"
proof (intro conjI allI)
  show "list_all (\<lambda>x. length (filter (\<lambda>s. target s = x) conf_py) = 1)
     [''project'', ''author'', ''copyright'']"
    unfolding conf_py_def by simp
next
  fix n :: nat
  define e3 :: env where
    "e3 = [(''project'', VStr ''Fortran OOP Seminar Series''),
           (''author'', VStr ''Sebastian Ehlert''),
           (''copyright'', VStr ''2022 Sebastian Ehlert'')]"
  let ?P = "\<lambda>e. exec_module [] (take n conf_py) = Inr e
          \<and> map_of e ''project'' =
              (if 1 \<le> n then Some (VStr ''Fortran OOP Seminar Series'') else None)
          \<and> map_of e ''author'' =
              (if 2 \<le> n then Some (VStr ''Sebastian Ehlert'') else None)
          \<and> map_of e ''copyright'' =
              (if 3 \<le> n then Some (VStr ''2022 Sebastian Ehlert'') else None)"
  have first: "exec_module [] (take 3 conf_py) = Inr e3"
    unfolding conf_py_def e3_def by simp
  have names: "x \<notin> target ` set (drop 3 conf_py)"
    if "x \<in> {''project'', ''author'', ''copyright''}" for x
    using that unfolding conf_py_def by auto
  consider "n = 0" | "n = 1" | "n = 2" | "3 \<le> n" by linarith
  then show "\<exists>e. ?P e"
  proof cases
    case 1
    then show ?thesis by simp
  next
    case 2
    then show ?thesis unfolding conf_py_def by simp
  next
    case 3
    then show ?thesis unfolding conf_py_def by simp
  next
    case 4
    then have split: "take n conf_py = take 3 conf_py @ take (n - 3) (drop 3 conf_py)"
      using take_add [of 3 "n - 3" conf_py] by simp
    have "exec_module [] (take 3 conf_py @ drop 3 conf_py) = conf_env"
      unfolding conf_env_def by simp
    then obtain e' where "exec_module e3 (drop 3 conf_py) = Inr e'"
      unfolding exec_module_append first by (simp add: conf_env_value)
    from exec_module_take [OF this, of "n - 3"]
    obtain e where run: "exec_module e3 (take (n - 3) (drop 3 conf_py)) = Inr e"
      by blast
    have untouched: "map_of e x = map_of e3 x"
      if "x \<in> {''project'', ''author'', ''copyright''}" for x
    proof -
      have "x \<notin> target ` set (take (n - 3) (drop 3 conf_py))"
        using names [OF that] set_take_subset [of "n - 3" "drop 3 conf_py"] by blast
      with run show ?thesis by (rule exec_module_other)
    qed
    have "exec_module [] (take n conf_py) = Inr e"
      unfolding split exec_module_append first using run by simp
    moreover have "map_of e ''project'' = Some (VStr ''Fortran OOP Seminar Series'')"
      and "map_of e ''author'' = Some (VStr ''Sebastian Ehlert'')"
      and "map_of e ''copyright'' = Some (VStr ''2022 Sebastian Ehlert'')"
      using untouched unfolding e3_def by simp_all
    ultimately show ?thesis using 4 by simp
  qed
qed

subsection \<open>The file as a whole\<close>

text \<open>
  C7: the file has exactly 65 lines, and they read as a sequence of assignments and nothing
  else (no function or class definition, no control flow, no import); every value they
  assign is a string, a list or a dict.
\<close>

theorem file_is_assignments:
  "length conf_py_lines = 65
   \<and> parse_module conf_py_lines = Some conf_py
   \<and> (\<exists>e. conf_env = Inr e
          \<and> map fst e = map target conf_py
          \<and> list_all is_str_list_dict (map snd e))"
proof (intro conjI)
  show "length conf_py_lines = 65"
    unfolding conf_py_lines_def by simp
  show "parse_module conf_py_lines = Some conf_py"
    by (rule conf_py_parsed)
  show "\<exists>e. conf_env = Inr e \<and> map fst e = map target conf_py
      \<and> list_all is_str_list_dict (map snd e)"
    unfolding conf_env_value conf_py_def by simp
qed

subsection \<open>The extra navbar\<close>

text \<open>
  C10: the string stored under the key \<open>extra_navbar\<close> of \<open>html_theme_options\<close> holds one
  HTML comment, and all its anchor markup is in the body of that comment: what stands
  before the comment is the opening \<open>div\<close> tag and what stands after it is the closing
  one, with only line breaks around them, so no anchor and no \<open>href\<close> is left outside.
\<close>

theorem extra_navbar_commented_out:
  \<open>\<exists>d pre body post.
     conf_value ''html_theme_options'' = Some (VDict d)
     \<and> map_of d (VStr ''extra_navbar'') = Some (VStr extra_navbar_text)
     \<and> comment_split extra_navbar_text = Some (pre, body, post)
     \<and> pre = ''\<newline><div class="sd-fs-4">\<newline>''
     \<and> post = ''\<newline></div>\<newline>''
     \<and> count_sub ''<!--'' extra_navbar_text = 1
     \<and> count_sub ''-->'' extra_navbar_text = 1
     \<and> count_sub ''<a'' (pre @ post) = 0
     \<and> count_sub ''href'' (pre @ post) = 0
     \<and> count_sub ''<a '' body = 3
     \<and> count_sub ''</a>'' body = 3
     \<and> count_sub ''<a '' extra_navbar_text = 3
     \<and> count_sub ''</a>'' extra_navbar_text = 3\<close>
proof -
  define body :: string where
    \<open>body = concat
      [''\<newline>'',
       ''<a href="https://fortran-lang.discourse.group/" target="_blank">\<newline>'',
       ''    <i class="fab fa-discourse"></i>\<newline>'',
       ''</a>\<newline>'',
       ''<a href="https://twitter.com/fortranlang" target="_blank">\<newline>'',
       ''    <i class="fab fa-twitter"></i>\<newline>'',
       ''</a>\<newline>'',
       ''<a href="https://github.com/fortran-lang" target="_blank">\<newline>'',
       ''    <i class="fab fa-github"></i>\<newline>'',
       ''</a>\<newline>'']\<close>
  have stored: "conf_value ''html_theme_options'' = Some (VDict
       [(VStr ''repository_url'', VStr ''https://github.com/awvwgk/foopss''),
        (VStr ''repository_branch'', VStr ''main''),
        (VStr ''use_repository_button'', VBool True),
        (VStr ''use_edit_page_button'', VBool True),
        (VStr ''use_download_button'', VBool False),
        (VStr ''path_to_docs'', VStr ''pages''),
        (VStr ''show_navbar_depth'', VInt 3),
        (VStr ''logo_only'', VBool True),
        (VStr ''extra_navbar'', VStr extra_navbar_text)])"
    unfolding conf_value_def conf_env_value by simp
  have cut: \<open>comment_split extra_navbar_text =
      Some (''\<newline><div class="sd-fs-4">\<newline>'', body, ''\<newline></div>\<newline>'')\<close>
    unfolding body_def by code_simp
  have opens: "count_sub ''<!--'' extra_navbar_text = 1"
    by code_simp
  have closes: "count_sub ''-->'' extra_navbar_text = 1"
    by code_simp
  have outside_a: \<open>count_sub ''<a'' (''\<newline><div class="sd-fs-4">\<newline>'' @ ''\<newline></div>\<newline>'') = 0\<close>
    by code_simp
  have outside_href: \<open>count_sub ''href'' (''\<newline><div class="sd-fs-4">\<newline>'' @ ''\<newline></div>\<newline>'') = 0\<close>
    by code_simp
  have inside_a: "count_sub ''<a '' body = 3"
    unfolding body_def by code_simp
  have inside_end: "count_sub ''</a>'' body = 3"
    unfolding body_def by code_simp
  have all_a: "count_sub ''<a '' extra_navbar_text = 3"
    by code_simp
  have all_end: "count_sub ''</a>'' extra_navbar_text = 3"
    by code_simp
  from stored cut opens closes outside_a outside_href inside_a inside_end all_a all_end
  show ?thesis
    by (intro exI [of _ "[(VStr ''repository_url'', VStr ''https://github.com/awvwgk/foopss''),
        (VStr ''repository_branch'', VStr ''main''),
        (VStr ''use_repository_button'', VBool True),
        (VStr ''use_edit_page_button'', VBool True),
        (VStr ''use_download_button'', VBool False),
        (VStr ''path_to_docs'', VStr ''pages''),
        (VStr ''show_navbar_depth'', VInt 3),
        (VStr ''logo_only'', VBool True),
        (VStr ''extra_navbar'', VStr extra_navbar_text)]"] exI [of _ body]
        exI [of _ "[CHR ''\<newline>'', CHR ''<'', CHR ''d'', CHR ''i'', CHR ''v'', CHR '' '', CHR ''c'', CHR ''l'', CHR ''a'', CHR ''s'', CHR ''s'', CHR ''='', CHR 0x22, CHR ''s'', CHR ''d'', CHR ''-'', CHR ''f'', CHR ''s'', CHR ''-'', CHR ''4'', CHR 0x22, CHR ''>'', CHR ''\<newline>'']"]
        exI [of _ "''\<newline></div>\<newline>''"]) simp
qed

end
